theory Spec2Isabelle
  imports Complex_Main
begin

section \<open>JavaScript numbers\<close>

text \<open>
  A JavaScript \<open>number\<close> is an IEEE 754 double: NaN, one of the two infinities, or a
  finite value, which is given here by the real number it denotes. The arithmetic
  operations round their exact result to the nearest double (\<open>round_double\<close> below),
  overflowing to an infinity. The comparison operators are exact, and any comparison with
  NaN is false. The sign of zero is not modelled: it shows only in a division by zero.
\<close>

datatype number = NaN | PosInf | NegInf | Fin real

fun isNaN :: "number \<Rightarrow> bool" where
  "isNaN NaN = True"
| "isNaN _ = False"

text \<open>\<open>a > b\<close>\<close>

fun js_gt :: "number \<Rightarrow> number \<Rightarrow> bool" where
  "js_gt NaN _ = False"
| "js_gt _ NaN = False"
| "js_gt NegInf _ = False"
| "js_gt PosInf PosInf = False"
| "js_gt PosInf _ = True"
| "js_gt (Fin a) PosInf = False"
| "js_gt (Fin a) NegInf = True"
| "js_gt (Fin a) (Fin b) = (a > b)"

text \<open>\<open>a < b\<close>\<close>

definition js_lt :: "number \<Rightarrow> number \<Rightarrow> bool" where
  "js_lt a b = js_gt b a"

text \<open>\<open>a === b\<close> on numbers: NaN is not equal to itself.\<close>

definition js_eq :: "number \<Rightarrow> number \<Rightarrow> bool" where
  "js_eq a b = (\<not> isNaN a \<and> \<not> isNaN b \<and> a = b)"

text \<open>\<open>a >= b\<close> and \<open>a <= b\<close>\<close>

definition js_ge :: "number \<Rightarrow> number \<Rightarrow> bool" where
  "js_ge a b = (js_gt a b \<or> js_eq a b)"

definition js_le :: "number \<Rightarrow> number \<Rightarrow> bool" where
  "js_le a b = js_ge b a"

text \<open>The power \<open>2\<^sup>e\<close> for an integer exponent.\<close>

definition pow2 :: "int \<Rightarrow> real" where
  "pow2 e = (if 0 \<le> e then 2 ^ nat e else 1 / 2 ^ nat (- e))"

text \<open>
  The binary exponent of a positive real \<open>x\<close>: the \<open>e\<close> with \<open>2\<^sup>e \<le> x < 2\<^sup>e\<^sup>+\<^sup>1\<close>, searched
  upwards or downwards from 0 and kept within the exponent range of a double, from
  \<open>-1022\<close> (where the subnormal numbers begin) to \<open>1023\<close>.
\<close>

function exp_up :: "real \<Rightarrow> int \<Rightarrow> int" where
  "exp_up x e = (if e < 1023 \<and> pow2 (e + 1) \<le> x then exp_up x (e + 1) else e)"
  by pat_completeness auto
termination
  by (relation "measure (\<lambda>(x, e). nat (1023 - e))") auto

function exp_down :: "real \<Rightarrow> int \<Rightarrow> int" where
  "exp_down x e = (if - 1022 < e \<and> x < pow2 e then exp_down x (e - 1) else e)"
  by pat_completeness auto
termination
  by (relation "measure (\<lambda>(x, e). nat (e + 1022))") auto

declare exp_up.simps [simp del] exp_down.simps [simp del]

definition exponent :: "real \<Rightarrow> int" where
  "exponent x = (if 1 \<le> x then exp_up x 0 else exp_down x 0)"

text \<open>The nearest integer, a tie going to the even one.\<close>

definition round_half_even :: "real \<Rightarrow> int" where
  "round_half_even r =
     (let f = \<lfloor>r\<rfloor>; d = r - of_int f in
      if d < 1 / 2 then f else if 1 / 2 < d then f + 1 else if even f then f else f + 1)"

text \<open>
  Rounding to the nearest double, ties to even: around \<open>x\<close> the doubles are the multiples
  of \<open>q = 2\<^sup>e\<^sup>-\<^sup>5\<^sup>2\<close>, a significand of 53 bits; a result of magnitude \<open>2\<^sup>1\<^sup>0\<^sup>2\<^sup>4\<close> or more is
  an infinity.
\<close>

definition round_double :: "real \<Rightarrow> number" where
  "round_double x =
     (if x = 0 then Fin 0
      else let q = pow2 (exponent \<bar>x\<bar> - 52);
               v = of_int (round_half_even (x / q)) * q
           in if 2 ^ 1024 \<le> \<bar>v\<bar> then (if 0 < x then PosInf else NegInf) else Fin v)"

text \<open>A real is a double when rounding leaves it as it is.\<close>

definition is_double :: "real \<Rightarrow> bool" where
  "is_double x = (round_double x = Fin x)"

text \<open>A number that a double can hold: NaN, an infinity, or a finite double.\<close>

fun representable :: "number \<Rightarrow> bool" where
  "representable (Fin a) = is_double a"
| "representable _ = True"

fun js_neg :: "number \<Rightarrow> number" where
  "js_neg NaN = NaN"
| "js_neg PosInf = NegInf"
| "js_neg NegInf = PosInf"
| "js_neg (Fin a) = Fin (- a)"

text \<open>\<open>a + b\<close>: the sum of opposite infinities is NaN.\<close>

fun js_add :: "number \<Rightarrow> number \<Rightarrow> number" where
  "js_add NaN _ = NaN"
| "js_add _ NaN = NaN"
| "js_add PosInf NegInf = NaN"
| "js_add NegInf PosInf = NaN"
| "js_add PosInf _ = PosInf"
| "js_add NegInf _ = NegInf"
| "js_add (Fin a) PosInf = PosInf"
| "js_add (Fin a) NegInf = NegInf"
| "js_add (Fin a) (Fin b) = round_double (a + b)"

text \<open>\<open>a - b\<close>\<close>

definition js_sub :: "number \<Rightarrow> number \<Rightarrow> number" where
  "js_sub a b = js_add a (js_neg b)"

text \<open>An infinity with the sign of a finite factor; zero times infinity is NaN.\<close>

definition signed_inf :: "real \<Rightarrow> number" where
  "signed_inf a = (if a = 0 then NaN else if a > 0 then PosInf else NegInf)"

text \<open>\<open>a * b\<close>\<close>

fun js_mul :: "number \<Rightarrow> number \<Rightarrow> number" where
  "js_mul NaN _ = NaN"
| "js_mul _ NaN = NaN"
| "js_mul PosInf PosInf = PosInf"
| "js_mul PosInf NegInf = NegInf"
| "js_mul NegInf PosInf = NegInf"
| "js_mul NegInf NegInf = PosInf"
| "js_mul PosInf (Fin b) = signed_inf b"
| "js_mul NegInf (Fin b) = signed_inf (- b)"
| "js_mul (Fin a) PosInf = signed_inf a"
| "js_mul (Fin a) NegInf = signed_inf (- a)"
| "js_mul (Fin a) (Fin b) = round_double (a * b)"

text \<open>
  \<open>a / b\<close>. A finite value divided by an infinity is zero; an infinity divided by an
  infinity is NaN. A zero divisor is read as \<open>+0\<close>, there being one zero here; the ring
  test below never divides by zero when the coordinates are doubles, see
  \<open>crossing_divisor_nonzero\<close>.
\<close>

fun js_div :: "number \<Rightarrow> number \<Rightarrow> number" where
  "js_div NaN _ = NaN"
| "js_div _ NaN = NaN"
| "js_div PosInf (Fin b) = (if b < 0 then NegInf else PosInf)"
| "js_div NegInf (Fin b) = (if b < 0 then PosInf else NegInf)"
| "js_div PosInf _ = NaN"
| "js_div NegInf _ = NaN"
| "js_div (Fin a) PosInf = Fin 0"
| "js_div (Fin a) NegInf = Fin 0"
| "js_div (Fin a) (Fin b) = (if b = 0 then signed_inf a else round_double (a / b))"

section \<open>Ring containment (\<open>pointInRing\<close>, geospatialService.ts)\<close>

text \<open>
  A point is the pair \<open>[x, y]\<close> = \<open>[lng, lat]\<close>. A position of a ring is a \<open>number[]\<close>;
  the destructuring \<open>const [xi, yi] = ring[i]\<close> reads its first two entries, and a missing
  entry is \<open>undefined\<close>, which \<open>></\<close>, \<open>-\<close> and \<open>+\<close> convert to NaN.
\<close>

type_synonym point = "number \<times> number"
type_synonym position = "number list"
type_synonym ring = "position list"

fun destructure :: "position \<Rightarrow> number \<times> number" where
  "destructure [] = (NaN, NaN)"
| "destructure [a] = (a, NaN)"
| "destructure (a # b # _) = (a, b)"

text \<open>
  The condition of the loop body for the edge from \<open>ring[j]\<close> to \<open>ring[i]\<close>:
  \<^verbatim>\<open>((yi > y) !== (yj > y)) && (x < (xj - xi) * (y - yi) / (yj - yi) + xi)\<close>
\<close>

definition crossing :: "point \<Rightarrow> position \<Rightarrow> position \<Rightarrow> bool" where
  "crossing p vi vj =
     (case p of (x, y) \<Rightarrow> case destructure vi of (xi, yi) \<Rightarrow> case destructure vj of (xj, yj) \<Rightarrow>
        (js_gt yi y \<noteq> js_gt yj y) \<and>
        js_lt x (js_add (js_div (js_mul (js_sub xj xi) (js_sub y yi)) (js_sub yj yi)) xi))"

text \<open>
  \<^verbatim>\<open>for (let i = 0, j = n - 1; i < n; j = i++) { ...; if (cond) inside = !inside; }\<close>
  The loop state is \<open>(i, j, inside)\<close>. Both indices are below \<open>n\<close> whenever the body runs.
\<close>

function pointInRing_loop :: "point \<Rightarrow> ring \<Rightarrow> nat \<Rightarrow> nat \<Rightarrow> bool \<Rightarrow> bool" where
  "pointInRing_loop p ring i j inside =
     (if i < length ring
      then pointInRing_loop p ring (Suc i) i
             (if crossing p (ring ! i) (ring ! j) then \<not> inside else inside)
      else inside)"
  by pat_completeness auto
termination
  by (relation "measure (\<lambda>(p, ring, i, j, inside). length ring - i)") auto

declare pointInRing_loop.simps [simp del]

text \<open>
  For the empty ring JavaScript starts with \<open>j = -1\<close> and never runs the body; the model
  starts with \<open>j = 0\<close> there, which is never read either.
\<close>

definition pointInRing :: "point \<Rightarrow> ring \<Rightarrow> bool" where
  "pointInRing p ring = pointInRing_loop p ring 0 (length ring - 1) False"

section \<open>Polygon and geometry containment (geospatialService.ts)\<close>

text \<open>
  The errors a call can end with: \<open>fetch\<close> rejecting, the \<open>Error\<close> thrown for a response
  that is not ok (with its message), \<open>response.json()\<close> rejecting, and a \<open>TypeError\<close>
  (reading a property of \<open>undefined\<close> or \<open>null\<close>, calling a missing method).
\<close>

datatype error = FetchRejected | LoadFailed string | JsonSyntaxError | TypeError

type_synonym polygon = "ring list"

text \<open>
  \<^verbatim>\<open>for (let i = 1; i < coordinates.length; i++)
    if (this.pointInRing(point, coordinates[i])) return false;
  return true;\<close>
\<close>

fun holes_loop :: "point \<Rightarrow> ring list \<Rightarrow> bool" where
  "holes_loop p [] = True"
| "holes_loop p (hole # rest) = (if pointInRing p hole then False else holes_loop p rest)"

text \<open>
  \<open>isPointInPolygon\<close>. For an empty \<open>coordinates\<close> array \<open>coordinates[0]\<close> is
  \<open>undefined\<close> and \<open>pointInRing\<close> throws at \<open>ring.length\<close>.
\<close>

fun isPointInPolygon :: "point \<Rightarrow> polygon \<Rightarrow> error + bool" where
  "isPointInPolygon p [] = Inl TypeError"
| "isPointInPolygon p (exteriorRing # holes) =
     (if \<not> pointInRing p exteriorRing then Inr False else Inr (holes_loop p holes))"

text \<open>
  \<open>geometry.coordinates.some(polygon => this.isPointInPolygon(point, polygon))\<close>: the
  polygons are tried in order, the first \<open>true\<close> ends the search, and an exception of the
  callback leaves \<open>some\<close>.
\<close>

fun some_polygon :: "point \<Rightarrow> polygon list \<Rightarrow> error + bool" where
  "some_polygon p [] = Inr False"
| "some_polygon p (poly # rest) =
     (case isPointInPolygon p poly of
        Inl e \<Rightarrow> Inl e
      | Inr True \<Rightarrow> Inr True
      | Inr False \<Rightarrow> some_polygon p rest)"

text \<open>
  A geometry object has a \<open>type\<close> and \<open>coordinates\<close>. The coordinates of a \<open>Polygon\<close>
  are a list of rings, those of a \<open>MultiPolygon\<close> a list of polygons; \<open>None\<close> is a missing
  (or null) \<open>coordinates\<close> field. Any other \<open>type\<close> is \<open>OtherGeometry\<close>. Coordinates
  nested otherwise than the type says are not modelled.
\<close>

datatype geometry =
    Polygon "polygon option"
  | MultiPolygon "polygon list option"
  | OtherGeometry

text \<open>
  \<open>isPointInGeometry\<close>: a missing geometry or missing coordinates give \<open>false\<close>, and
  the \<open>catch\<close> turns every exception into \<open>false\<close>.
\<close>

fun isPointInGeometry :: "point \<Rightarrow> geometry option \<Rightarrow> bool" where
  "isPointInGeometry p None = False"
| "isPointInGeometry p (Some (Polygon None)) = False"
| "isPointInGeometry p (Some (MultiPolygon None)) = False"
| "isPointInGeometry p (Some (Polygon (Some coordinates))) =
     (case isPointInPolygon p coordinates of Inl e \<Rightarrow> False | Inr b \<Rightarrow> b)"
| "isPointInGeometry p (Some (MultiPolygon (Some coordinates))) =
     (case some_polygon p coordinates of Inl e \<Rightarrow> False | Inr b \<Rightarrow> b)"
| "isPointInGeometry p (Some OtherGeometry) = False"

section \<open>\<open>parseInt\<close>\<close>

text \<open>
  \<open>parseInt(string)\<close> without a radix: leading white space is skipped, then an optional
  sign, then \<open>0x\<close> or \<open>0X\<close> selects radix 16 (otherwise 10), then the longest run of digits
  of that radix is read; no digit gives NaN, and otherwise the result is the double
  nearest to the signed value of the digits (the language lets an implementation
  approximate a decimal value after its 20th significant digit; the value is taken
  exactly here). A string is a list of code units below 256; among these the white space
  and line terminators are \<open>U+0009\<close> to \<open>U+000D\<close>, \<open>U+0020\<close> and \<open>U+00A0\<close>.
\<close>

definition isWhiteSpace :: "char \<Rightarrow> bool" where
  "isWhiteSpace c =
     (c \<in> set [CHR 0x09, CHR 0x0A, CHR 0x0B, CHR 0x0C, CHR 0x0D, CHR 0x20, CHR 0xA0])"

definition digit_value :: "char \<Rightarrow> nat" where
  "digit_value c =
     (let n = (of_char c :: nat) in
      if 48 \<le> n \<and> n \<le> 57 then n - 48
      else if 97 \<le> n \<and> n \<le> 122 then n - 87
      else if 65 \<le> n \<and> n \<le> 90 then n - 55
      else 36)"

definition strip_sign :: "string \<Rightarrow> bool \<times> string" where
  "strip_sign s =
     (case s of
        [] \<Rightarrow> (False, s)
      | c # r \<Rightarrow> if c = CHR ''-'' then (True, r) else if c = CHR ''+'' then (False, r) else (False, s))"

definition strip_prefix :: "string \<Rightarrow> nat \<times> string" where
  "strip_prefix s =
     (case s of
        a # b # r \<Rightarrow> if a = CHR ''0'' \<and> (b = CHR ''x'' \<or> b = CHR ''X'') then (16, r) else (10, s)
      | _ \<Rightarrow> (10, s))"

definition parseInt :: "string \<Rightarrow> number" where
  "parseInt s =
     (case strip_sign (dropWhile isWhiteSpace s) of (negative, s2) \<Rightarrow>
      case strip_prefix s2 of (radix, s3) \<Rightarrow>
        let digits = takeWhile (\<lambda>c. digit_value c < radix) s3;
            n = foldl (\<lambda>acc c. acc * radix + digit_value c) 0 digits
        in if digits = [] then NaN
           else round_double (if negative then - real n else real n))"

text \<open>Truthiness of a number: \<open>0\<close> and NaN are falsy.\<close>

definition truthy_number :: "number \<Rightarrow> bool" where
  "truthy_number v = (\<not> isNaN v \<and> v \<noteq> Fin 0)"

text \<open>\<open>v || null\<close> for a number \<open>v\<close>.\<close>

definition or_null :: "number \<Rightarrow> number option" where
  "or_null v = (if truthy_number v then Some v else None)"

section \<open>The geometry store and the classifier (class \<open>GeospatialService\<close>)\<close>

text \<open>
  An area of the feed. The interface declares every field present; at run time a field of
  a feed object may be missing, which is \<open>None\<close>. Fields no method reads are left to the
  record's extension.
\<close>

record CommunityArea =
  the_geom :: "geometry option"
  area_numbe :: "string option"
  community :: "string option"

text \<open>Truthiness of a string field: a missing field and the empty string are falsy.\<close>

fun truthy_string :: "string option \<Rightarrow> bool" where
  "truthy_string None = False"
| "truthy_string (Some s) = (s \<noteq> [])"

text \<open>\<open>parseInt(area.area_numbe)\<close>; \<open>parseInt(undefined)\<close> is NaN.\<close>

fun parseInt_field :: "string option \<Rightarrow> number" where
  "parseInt_field None = NaN"
| "parseInt_field (Some s) = parseInt s"

record GeospatialService =
  communityAreasCache :: "CommunityArea list"
  lastCommunityLoadTime :: int

definition CACHE_DURATION :: int where
  "CACHE_DURATION = 60 * 60 * 1000"

text \<open>The service as constructed: an empty cache, loaded at time 0.\<close>

definition new_GeospatialService :: GeospatialService where
  "new_GeospatialService = \<lparr>communityAreasCache = [], lastCommunityLoadTime = 0\<rparr>"

text \<open>
  What one call reads from outside: \<open>Date.now()\<close> in \<open>shouldRefreshCommunityCache\<close>,
  the outcome of \<open>fetch\<close> and of \<open>response.json()\<close>, and \<open>Date.now()\<close> after the load.
  An entry of the parsed array is an object or \<open>null\<close>.
\<close>

datatype feed_item = NullItem | AreaItem CommunityArea

datatype json_body = InvalidJson | NotAnArray | FeedArray "feed_item list"

datatype fetch_outcome =
    Rejected
  | Response bool string json_body

record world =
  now_check :: int
  fetched :: fetch_outcome
  now_loaded :: int

text \<open>\<open>area.the_geom && area.area_numbe && area.community\<close>\<close>

definition admitted :: "CommunityArea \<Rightarrow> bool" where
  "admitted area = (the_geom area \<noteq> None \<and> truthy_string (area_numbe area) \<and> truthy_string (community area))"

text \<open>
  \<open>data.filter(...)\<close>: the callback reads \<open>area.the_geom\<close>, which throws for a \<open>null\<close>
  entry; the filter keeps the admitted areas in order.
\<close>

fun filter_feed :: "feed_item list \<Rightarrow> error + CommunityArea list" where
  "filter_feed [] = Inr []"
| "filter_feed (NullItem # rest) = Inl TypeError"
| "filter_feed (AreaItem area # rest) =
     (case filter_feed rest of
        Inl e \<Rightarrow> Inl e
      | Inr kept \<Rightarrow> Inr (if admitted area then area # kept else kept))"

text \<open>
  \<open>loadCommunityAreas\<close>: every exception of the \<open>try\<close> block is logged and thrown again;
  the two assignments are reached only when nothing was thrown.
\<close>

definition loadCommunityAreas :: "GeospatialService \<Rightarrow> world \<Rightarrow> (error + unit) \<times> GeospatialService" where
  "loadCommunityAreas s w =
     (case fetched w of
        Rejected \<Rightarrow> (Inl FetchRejected, s)
      | Response ok statusText body \<Rightarrow>
          if \<not> ok then (Inl (LoadFailed (''Failed to load community areas: '' @ statusText)), s)
          else (case body of
                  InvalidJson \<Rightarrow> (Inl JsonSyntaxError, s)
                | NotAnArray \<Rightarrow> (Inl TypeError, s)
                | FeedArray data \<Rightarrow>
                    (case filter_feed data of
                       Inl e \<Rightarrow> (Inl e, s)
                     | Inr areas \<Rightarrow>
                         (Inr (), s\<lparr>communityAreasCache := areas,
                                    lastCommunityLoadTime := now_loaded w\<rparr>))))"

definition shouldRefreshCommunityCache :: "GeospatialService \<Rightarrow> int \<Rightarrow> bool" where
  "shouldRefreshCommunityCache s now =
     (now - lastCommunityLoadTime s > CACHE_DURATION \<or> length (communityAreasCache s) = 0)"

definition ensureCommunityAreasLoaded :: "GeospatialService \<Rightarrow> world \<Rightarrow> (error + unit) \<times> GeospatialService" where
  "ensureCommunityAreasLoaded s w =
     (if shouldRefreshCommunityCache s (now_check w) then loadCommunityAreas s w else (Inr (), s))"

text \<open>
  \<^verbatim>\<open>for (const area of this.communityAreasCache)
    if (this.isPointInGeometry(point, area.the_geom)) return parseInt(area.area_numbe) || null;
  return null;\<close>
\<close>

fun scan_areas :: "point \<Rightarrow> CommunityArea list \<Rightarrow> number option" where
  "scan_areas point [] = None"
| "scan_areas point (area # rest) =
     (if isPointInGeometry point (the_geom area) then or_null (parseInt_field (area_numbe area))
      else scan_areas point rest)"

text \<open>\<open>getCommunityAreaForCoordinates(lat, lng)\<close>; the point is \<open>[lng, lat]\<close>.\<close>

definition getCommunityAreaForCoordinates ::
  "GeospatialService \<Rightarrow> world \<Rightarrow> number \<Rightarrow> number \<Rightarrow> (error + number option) \<times> GeospatialService" where
  "getCommunityAreaForCoordinates s w lat lng =
     (case ensureCommunityAreasLoaded s w of
        (Inl e, s') \<Rightarrow> (Inl e, s')
      | (Inr u, s') \<Rightarrow> (Inr (scan_areas (lng, lat) (communityAreasCache s')), s'))"

text \<open>
  \<open>getCommunityAreaInfo(areaNumber)\<close>:
  \<open>find(area => parseInt(area.area_numbe) === areaNumber) || null\<close>
\<close>

definition getCommunityAreaInfo ::
  "GeospatialService \<Rightarrow> world \<Rightarrow> number \<Rightarrow> (error + CommunityArea option) \<times> GeospatialService" where
  "getCommunityAreaInfo s w areaNumber =
     (case ensureCommunityAreasLoaded s w of
        (Inl e, s') \<Rightarrow> (Inl e, s')
      | (Inr u, s') \<Rightarrow>
          (Inr (find (\<lambda>area. js_eq (parseInt_field (area_numbe area)) areaNumber)
                  (communityAreasCache s')), s'))"

section \<open>Parks (types/park, \<open>validateParkLocation\<close>, \<open>correctParkCommunityArea\<close>)\<close>

datatype park_size = small | medium | large

text \<open>The \<open>Park\<close> interface; \<open>coordinates\<close> is \<open>[latitude, longitude]\<close>.\<close>

record Park =
  id_park :: string
  name :: string
  address :: string
  coordinates :: "number \<times> number"
  communityArea :: number
  amenities :: "string list"
  description :: string
  size_park :: park_size

text \<open>
  \<open>actualCommunityArea !== park.communityArea\<close>, the left side a number or \<open>null\<close>:
  \<open>null\<close> differs from every number, and NaN from itself.
\<close>

fun differs :: "number option \<Rightarrow> number \<Rightarrow> bool" where
  "differs None v = True"
| "differs (Some a) v = (\<not> js_eq a v)"

text \<open>Truthiness of a number or \<open>null\<close>.\<close>

fun truthy :: "number option \<Rightarrow> bool" where
  "truthy None = False"
| "truthy (Some a) = truthy_number a"

definition validateParkLocation ::
  "GeospatialService \<Rightarrow> world \<Rightarrow> Park \<Rightarrow> (error + bool) \<times> GeospatialService" where
  "validateParkLocation s w park =
     (case coordinates park of (lat, lng) \<Rightarrow>
      (case getCommunityAreaForCoordinates s w lat lng of
         (Inl e, s') \<Rightarrow> (Inl e, s')
       | (Inr actualCommunityArea, s') \<Rightarrow>
           (if differs actualCommunityArea (communityArea park) then (Inr False, s')
            else (Inr True, s'))))"

text \<open>
  \<open>correctParkCommunityArea\<close>: the corrected park is \<open>{...park, communityArea: actual}\<close>,
  a copy of every field of the park with \<open>communityArea\<close> replaced.
\<close>

definition correctParkCommunityArea ::
  "GeospatialService \<Rightarrow> world \<Rightarrow> Park \<Rightarrow> (error + Park) \<times> GeospatialService" where
  "correctParkCommunityArea s w park =
     (case coordinates park of (lat, lng) \<Rightarrow>
      (case getCommunityAreaForCoordinates s w lat lng of
         (Inl e, s') \<Rightarrow> (Inl e, s')
       | (Inr actualCommunityArea, s') \<Rightarrow>
           (if truthy actualCommunityArea \<and> differs actualCommunityArea (communityArea park)
            then (case actualCommunityArea of
                    Some a \<Rightarrow> (Inr (park\<lparr>communityArea := a\<rparr>), s')
                  | None \<Rightarrow> (Inr park, s'))
            else (Inr park, s'))))"

text \<open>
  \<open>getCommunityAreaForAddress\<close>. The outcome of \<open>geocodeAddress\<close> (a coordinate pair
  matched in the text, or the answer of the geocoding service) is an input: \<open>None\<close> is its
  \<open>null\<close>, which it also returns for every failure; otherwise latitude, longitude and
  an optional display address. The \<open>catch\<close> turns an exception of the classifier into
  \<open>null\<close>. \<open>coordinates.address || address\<close> takes the display address unless it is
  missing or empty.
\<close>

record GeocodeResult =
  latitude :: number
  longitude :: number
  communityArea_result :: "number option"
  address_result :: string

definition getCommunityAreaForAddress ::
  "GeospatialService \<Rightarrow> world \<Rightarrow> (number \<times> number \<times> string option) option \<Rightarrow> string
     \<Rightarrow> GeocodeResult option \<times> GeospatialService" where
  "getCommunityAreaForAddress s w geocoded addr =
     (case geocoded of
        None \<Rightarrow> (None, s)
      | Some (lat, lng, display) \<Rightarrow>
          (case getCommunityAreaForCoordinates s w lat lng of
             (Inl e, s') \<Rightarrow> (None, s')
           | (Inr area, s') \<Rightarrow>
               (Some \<lparr>latitude = lat, longitude = lng, communityArea_result = area,
                      address_result =
                        (case display of None \<Rightarrow> addr | Some d \<Rightarrow> if d = [] then addr else d)\<rparr>,
                s')))"

text \<open>The calls a client can make on the service, and the store they leave.\<close>

datatype call =
    ForCoordinates number number
  | ForAddress "(number \<times> number \<times> string option) option" string
  | ValidatePark Park
  | CorrectPark Park
  | AreaInfo number

fun after_call :: "GeospatialService \<Rightarrow> world \<times> call \<Rightarrow> GeospatialService" where
  "after_call s (w, ForCoordinates lat lng) = snd (getCommunityAreaForCoordinates s w lat lng)"
| "after_call s (w, ForAddress geocoded addr) = snd (getCommunityAreaForAddress s w geocoded addr)"
| "after_call s (w, ValidatePark park) = snd (validateParkLocation s w park)"
| "after_call s (w, CorrectPark park) = snd (correctParkCommunityArea s w park)"
| "after_call s (w, AreaInfo n) = snd (getCommunityAreaInfo s w n)"

definition after_calls :: "(world \<times> call) list \<Rightarrow> GeospatialService" where
  "after_calls calls = foldl after_call new_GeospatialService calls"

section \<open>Coordinate validation\<close>

text \<open>\<open>isValidChicagoCoordinates\<close> (geospatialService.ts)\<close>

definition isValidChicagoCoordinates :: "number \<Rightarrow> number \<Rightarrow> bool" where
  "isValidChicagoCoordinates lat lng =
     (js_ge lat (Fin 41.6) \<and> js_le lat (Fin 42.1) \<and>
      js_ge lng (Fin (- 88.3)) \<and> js_le lng (Fin (- 87.5)))"

text \<open>
  \<open>isValidCoordinates\<close> (chicagoParkService.ts). The comparisons of \<open>lat\<close> and \<open>lng\<close>
  with \<open>null\<close> and \<open>undefined\<close> are true for every number.
\<close>

definition isValidCoordinates :: "number \<times> number \<Rightarrow> bool" where
  "isValidCoordinates c =
     (case c of (lat, lng) \<Rightarrow>
        \<not> isNaN lat \<and> \<not> isNaN lng \<and>
        js_ge lat (Fin (- 90)) \<and> js_le lat (Fin 90) \<and>
        js_ge lng (Fin (- 180)) \<and> js_le lng (Fin 180) \<and>
        isValidChicagoCoordinates lat lng)"

section \<open>The specification's words\<close>




text \<open>
  Polygon containment as the specification words it: inside the exterior (first) ring and
  inside none of the hole rings.
\<close>

fun polygon_contains :: "point \<Rightarrow> polygon \<Rightarrow> bool" where
  "polygon_contains p [] = False"
| "polygon_contains p (exterior # holes) =
     (pointInRing p exterior \<and> list_all (\<lambda>hole. \<not> pointInRing p hole) holes)"

text \<open>
  An identifier as the specification has it, a number: the identifier string written in
  decimal digits, and the number these digits denote.
\<close>

definition is_digit :: "char \<Rightarrow> bool" where
  "is_digit c = (48 \<le> (of_char c :: nat) \<and> (of_char c :: nat) \<le> 57)"

definition decimal_numeral :: "string \<Rightarrow> bool" where
  "decimal_numeral ds = (ds \<noteq> [] \<and> list_all is_digit ds)"

definition decimal_value :: "string \<Rightarrow> nat" where
  "decimal_value ds = foldl (\<lambda>v c. 10 * v + (of_char c - 48)) 0 ds"

text \<open>The fields of an area that the cache requires to be present.\<close>

definition fields_present :: "CommunityArea \<Rightarrow> bool" where
  "fields_present area = (the_geom area \<noteq> None \<and> area_numbe area \<noteq> None \<and> community area \<noteq> None)"

text \<open>The refresh fails: the fetch, the status check, the parse or the filter throws.\<close>

fun refresh_fails :: "fetch_outcome \<Rightarrow> bool" where
  "refresh_fails Rejected = True"
| "refresh_fails (Response ok statusText InvalidJson) = True"
| "refresh_fails (Response ok statusText NotAnArray) = True"
| "refresh_fails (Response ok statusText (FeedArray data)) = (\<not> ok \<or> NullItem \<in> set data)"

section \<open>Auxiliary notions for the ring test\<close>

text \<open>The edges the loop of \<open>pointInRing\<close> visits: each vertex with its cyclic predecessor.\<close>

definition ring_edges :: "ring \<Rightarrow> (position \<times> position) list" where
  "ring_edges ring = (if ring = [] then [] else zip ring (last ring # butlast ring))"

definition crossings :: "point \<Rightarrow> ring \<Rightarrow> nat" where
  "crossings p ring = length (filter (\<lambda>(vi, vj). crossing p vi vj) (ring_edges ring))"

text \<open>The objects of a parsed feed, in order.\<close>

fun feed_areas :: "feed_item list \<Rightarrow> CommunityArea list" where
  "feed_areas [] = []"
| "feed_areas (NullItem # rest) = feed_areas rest"
| "feed_areas (AreaItem area # rest) = area # feed_areas rest"

section \<open>Example data\<close>

text \<open>The square and the hole of the specification's scenarios 1 and 2.\<close>

definition example_square :: ring where
  "example_square = [[Fin 0, Fin 0], [Fin 0, Fin 10], [Fin 10, Fin 10], [Fin 10, Fin 0]]"

definition example_hole :: ring where
  "example_hole = [[Fin 4, Fin 4], [Fin 4, Fin 6], [Fin 6, Fin 6], [Fin 6, Fin 4]]"

definition example_area :: CommunityArea where
  "example_area =
     \<lparr>the_geom = Some (Polygon (Some [example_square])),
      area_numbe = Some ''1'', community = Some ''ROGERS PARK''\<rparr>"

text \<open>A feed object without an identifier (scenario 5).\<close>

definition unnumbered_area :: CommunityArea where
  "unnumbered_area =
     \<lparr>the_geom = Some (Polygon (Some [example_hole])),
      area_numbe = None, community = Some ''WEST RIDGE''\<rparr>"

definition example_store :: GeospatialService where
  "example_store = \<lparr>communityAreasCache = [example_area], lastCommunityLoadTime = 1000\<rparr>"

text \<open>The first load, at time 1000, of a feed with both areas.\<close>

definition first_load :: world where
  "first_load =
     \<lparr>now_check = 1000,
      fetched = Response True ''OK'' (FeedArray [AreaItem example_area, AreaItem unnumbered_area]),
      now_loaded = 1000\<rparr>"

text \<open>A call one second after the load: no refresh is due.\<close>

definition no_refresh_due :: world where
  "no_refresh_due = \<lparr>now_check = 2000, fetched = Rejected, now_loaded = 2000\<rparr>"

text \<open>A call more than an hour after the load, whose fetch is rejected.\<close>

definition failing_refresh :: world where
  "failing_refresh = \<lparr>now_check = 3601001, fetched = Rejected, now_loaded = 3601001\<rparr>"

text \<open>
  A second area over the same square, listed before the first; an area numbered zero;
  and a call more than an hour after the load that is answered with a status that is
  not ok.
\<close>

definition second_area :: CommunityArea where
  "second_area =
     \<lparr>the_geom = Some (Polygon (Some [example_square])),
      area_numbe = Some ''77'', community = Some ''EDGEWATER''\<rparr>"

definition overlapping_store :: GeospatialService where
  "overlapping_store =
     \<lparr>communityAreasCache = [second_area, example_area], lastCommunityLoadTime = 1000\<rparr>"

definition zero_area :: CommunityArea where
  "zero_area =
     \<lparr>the_geom = Some (Polygon (Some [example_square])),
      area_numbe = Some ''0'', community = Some ''NOWHERE''\<rparr>"

definition zero_store :: GeospatialService where
  "zero_store = \<lparr>communityAreasCache = [zero_area], lastCommunityLoadTime = 1000\<rparr>"

definition unavailable_feed :: world where
  "unavailable_feed =
     \<lparr>now_check = 3601001,
      fetched = Response False ''Service Unavailable'' InvalidJson,
      now_loaded = 3601001\<rparr>"

definition example_park :: Park where
  "example_park =
     \<lparr>id_park = ''chicago-park-1'', name = ''Example Park'', address = ''Chicago, IL'',
      coordinates = (Fin 5, Fin 5), communityArea = Fin 2, amenities = [''Playground''],
      description = ''1 acre park in Ward 1'', size_park = small\<rparr>"

section \<open>Rounding to a double\<close>

lemma pow2_powi: "pow2 e = 2 powi e"
  by (simp add: pow2_def power_int_def power_inverse inverse_eq_divide power_one_over)

lemma pow2_pos: "0 < pow2 e"
  by (simp add: pow2_def)

lemma pow2_mono: "e \<le> e' \<Longrightarrow> pow2 e \<le> pow2 e'"
  by (simp add: pow2_powi power_int_increasing)

lemma exp_up_spec:
  "pow2 e \<le> x \<Longrightarrow> e \<le> 1023 \<Longrightarrow>
   e \<le> exp_up x e \<and> exp_up x e \<le> 1023 \<and> pow2 (exp_up x e) \<le> x \<and>
   (exp_up x e = 1023 \<or> x < pow2 (exp_up x e + 1))"
proof (induction x e rule: exp_up.induct)
  case (1 x e)
  show ?case
  proof (cases "e < 1023 \<and> pow2 (e + 1) \<le> x")
    case True
    then have "exp_up x e = exp_up x (e + 1)" by (subst exp_up.simps) simp
    with "1.IH"[OF True] True show ?thesis by auto
  next
    case False
    then have "exp_up x e = e" by (subst exp_up.simps) auto
    with False "1.prems" show ?thesis by auto
  qed
qed

lemma round_half_even_int: "round_half_even (of_int m) = m"
  by (simp add: round_half_even_def)

lemma round_double_nat:
  assumes "0 < n" and "n < 2 ^ 53"
  shows "round_double (real n) = Fin (real n)"
proof -
  let ?x = "real n"
  have x1: "1 \<le> ?x" using assms by simp
  define r where "r = exp_up ?x 0"
  have spec: "0 \<le> r \<and> r \<le> 1023 \<and> pow2 r \<le> ?x \<and> (r = 1023 \<or> ?x < pow2 (r + 1))"
  proof -
    have "pow2 0 \<le> ?x" using x1 by (simp add: pow2_def)
    then show ?thesis unfolding r_def using exp_up_spec[of 0 ?x] by simp
  qed
  have lt: "?x < 2 ^ 53" using assms by (metis of_nat_less_iff of_nat_numeral of_nat_power)
  have r52: "r \<le> 52"
  proof (rule ccontr)
    assume "\<not> r \<le> 52"
    then have "pow2 53 \<le> pow2 r" by (intro pow2_mono) simp
    with spec have "pow2 53 \<le> ?x" by linarith
    with lt show False by (simp add: pow2_def)
  qed
  define k where "k = nat (52 - r)"
  have q: "pow2 (r - 52) = 1 / 2 ^ k"
    using r52 spec by (auto simp add: pow2_def k_def)
  have e: "exponent \<bar>?x\<bar> = r" using x1 by (simp add: exponent_def r_def)
  have nz: "?x \<noteq> 0" using x1 by simp
  have "?x / pow2 (r - 52) = of_int (int n * 2 ^ k)" by (simp add: q)
  then have rh: "round_half_even (?x / pow2 (r - 52)) = int n * 2 ^ k"
    by (simp only: round_half_even_int)
  have v: "of_int (int n * 2 ^ k) * pow2 (r - 52) = ?x" by (simp add: q)
  have big: "?x < 2 ^ 1024"
  proof -
    have "(2::real) ^ 53 \<le> 2 ^ 1024" by (rule power_increasing) simp_all
    with lt show ?thesis by linarith
  qed
  have "round_double ?x =
        (if 2 ^ 1024 \<le> \<bar>?x\<bar> then (if 0 < ?x then PosInf else NegInf) else Fin ?x)"
    unfolding round_double_def Let_def e rh v using nz by (simp only: if_False)
  also have "\<dots> = Fin ?x" using big by simp
  finally show ?thesis .
qed

lemma exp_down_spec:
  "x < pow2 (e + 1) \<Longrightarrow> - 1022 \<le> e \<Longrightarrow>
   exp_down x e \<le> e \<and> - 1022 \<le> exp_down x e \<and> x < pow2 (exp_down x e + 1) \<and>
   (exp_down x e = - 1022 \<or> pow2 (exp_down x e) \<le> x)"
proof (induction x e rule: exp_down.induct)
  case (1 x e)
  show ?case
  proof (cases "- 1022 < e \<and> x < pow2 e")
    case True
    then have "exp_down x e = exp_down x (e - 1)" by (subst exp_down.simps) simp
    with "1.IH"[OF True] True show ?thesis by auto
  next
    case False
    then have "exp_down x e = e" by (subst exp_down.simps) auto
    with False "1.prems" show ?thesis by auto
  qed
qed

lemma exponent_spec:
  assumes "0 < x"
  shows "- 1022 \<le> exponent x \<and> (exponent x = - 1022 \<or> pow2 (exponent x) \<le> x)"
proof (cases "1 \<le> x")
  case True
  then have "pow2 0 \<le> x" by (simp add: pow2_def)
  from exp_up_spec[OF this] True show ?thesis by (simp add: exponent_def)
next
  case False
  then have "x < pow2 (0 + 1)" by (simp add: pow2_def)
  from exp_down_spec[OF this] False show ?thesis by (simp add: exponent_def)
qed

lemma quantum_le:
  assumes "pow2 (- 1074) \<le> x"
  shows "pow2 (exponent x - 52) \<le> x"
proof -
  have pos: "0 < x" using assms pow2_pos[of "- 1074"] by linarith
  from exponent_spec[OF pos] show ?thesis
  proof (elim conjE disjE)
    assume "exponent x = - 1022"
    then show ?thesis using assms by simp
  next
    assume "pow2 (exponent x) \<le> x"
    moreover have "pow2 (exponent x - 52) \<le> pow2 (exponent x)" by (rule pow2_mono) simp
    ultimately show ?thesis by linarith
  qed
qed

lemma round_half_even_floor:
  "round_half_even r = \<lfloor>r\<rfloor> \<or> round_half_even r = \<lfloor>r\<rfloor> + 1"
  by (simp add: round_half_even_def Let_def)

lemma round_half_even_nonzero:
  assumes "1 \<le> \<bar>r\<bar>"
  shows "round_half_even r \<noteq> 0"
proof (cases "0 \<le> r")
  case True
  with assms have "1 \<le> \<lfloor>r\<rfloor>" by (simp add: le_floor_iff)
  with round_half_even_floor[of r] show ?thesis by linarith
next
  case False
  with assms have r: "r \<le> - 1" by simp
  then have f: "\<lfloor>r\<rfloor> \<le> - 1" by (simp add: floor_le_iff)
  show ?thesis
  proof (cases "\<lfloor>r\<rfloor> = - 1")
    case True
    then have "- 1 \<le> r" using of_int_floor_le[of r] by simp
    with r have "r = of_int (- 1)" by simp
    then have "round_half_even r = - 1" by (simp only: round_half_even_int)
    then show ?thesis by simp
  next
    case False
    with f have "\<lfloor>r\<rfloor> \<le> - 2" by linarith
    with round_half_even_floor[of r] show ?thesis by linarith
  qed
qed

lemma round_double_nonzero:
  assumes "pow2 (- 1074) \<le> \<bar>x\<bar>"
  shows "round_double x \<noteq> Fin 0"
proof -
  let ?q = "pow2 (exponent \<bar>x\<bar> - 52)"
  have q: "0 < ?q" by (rule pow2_pos)
  have nz: "x \<noteq> 0" using assms pow2_pos[of "- 1074"] by auto
  have "?q \<le> \<bar>x\<bar>" using assms by (rule quantum_le)
  then have "1 \<le> \<bar>x / ?q\<bar>" using q by (simp add: field_simps)
  then have "round_half_even (x / ?q) \<noteq> 0" by (rule round_half_even_nonzero)
  then have "of_int (round_half_even (x / ?q)) * ?q \<noteq> 0" using q by simp
  then show ?thesis using nz by (simp add: round_double_def Let_def)
qed

lemma double_multiple:
  assumes "is_double a"
  shows "\<exists>m::int. a = of_int m * pow2 (- 1074)"
proof (cases "a = 0")
  case True
  then show ?thesis by (intro exI[of _ 0]) simp
next
  case False
  let ?e = "exponent \<bar>a\<bar>"
  let ?k = "round_half_even (a / pow2 (?e - 52))"
  have "round_double a = Fin a" using assms by (simp add: is_double_def)
  then have a: "a = of_int ?k * pow2 (?e - 52)"
    using False by (simp add: round_double_def Let_def split: if_splits)
  have "- 1022 \<le> ?e" using exponent_spec[of "\<bar>a\<bar>"] False by simp
  then have p: "(2::real) powi (?e + 1022) = of_int (2 ^ nat (?e + 1022))"
    by (simp add: power_int_def)
  have "pow2 (?e - 52) = 2 powi ((?e + 1022) + (- 1074))" by (simp add: pow2_powi)
  also have "\<dots> = 2 powi (?e + 1022) * 2 powi (- 1074)" by (rule power_int_add) simp
  finally have "pow2 (?e - 52) = of_int (2 ^ nat (?e + 1022)) * pow2 (- 1074)"
    by (simp only: p pow2_powi)
  with a have "a = of_int (?k * 2 ^ nat (?e + 1022)) * pow2 (- 1074)" by simp
  then show ?thesis by blast
qed

lemma double_diff_nonzero:
  assumes "is_double a" and "is_double b" and "a \<noteq> b"
  shows "round_double (a - b) \<noteq> Fin 0"
proof -
  obtain m n :: int where a: "a = of_int m * pow2 (- 1074)" and b: "b = of_int n * pow2 (- 1074)"
    using assms double_multiple by blast
  have d: "a - b = of_int (m - n) * pow2 (- 1074)" by (simp add: a b algebra_simps)
  have "m \<noteq> n" using assms a b by auto
  then have "1 \<le> \<bar>m - n\<bar>" by arith
  then have "(1::real) \<le> of_int \<bar>m - n\<bar>" by (simp only: of_int_1_le_iff)
  then have "1 \<le> \<bar>of_int (m - n) :: real\<bar>" by (simp only: of_int_abs)
  then have "pow2 (- 1074) \<le> \<bar>a - b\<bar>"
    unfolding d abs_mult using pow2_pos[of "- 1074"]
    by (simp add: mult_le_cancel_right1 abs_of_pos)
  then show ?thesis by (rule round_double_nonzero)
qed

text \<open>The facts that evaluate a rounding at a given rational.\<close>

lemmas round_double_eval =
  round_double_def exponent_def exp_up.simps exp_down.simps pow2_def round_half_even_def Let_def

lemma is_double_third: "is_double (6004799503160661 / 18014398509481984)"
  by (simp add: is_double_def round_double_eval)

section \<open>The ring test counts edge crossings\<close>

lemma pointInRing_loop_from:
  "0 < i \<Longrightarrow> j = i - 1 \<Longrightarrow>
   pointInRing_loop p ring i j b =
     (b \<noteq> odd (length (filter (\<lambda>k. crossing p (ring ! k) (ring ! (k - 1))) [i..<length ring])))"
proof (induction p ring i j b rule: pointInRing_loop.induct)
  case (1 p ring i j inside)
  show ?case
  proof (cases "i < length ring")
    case True
    have "pointInRing_loop p ring i j inside =
          pointInRing_loop p ring (Suc i) i
            (if crossing p (ring ! i) (ring ! j) then \<not> inside else inside)"
      using True by (subst pointInRing_loop.simps) simp
    also have "\<dots> = ((if crossing p (ring ! i) (ring ! j) then \<not> inside else inside) \<noteq>
        odd (length (filter (\<lambda>k. crossing p (ring ! k) (ring ! (k - 1))) [Suc i..<length ring])))"
      using "1.IH"[OF True] by simp
    finally show ?thesis
      using True "1.prems" by (auto simp add: upt_conv_Cons)
  next
    case False
    then show ?thesis by (subst pointInRing_loop.simps) simp
  qed
qed

lemma ring_edges_nth:
  assumes "ring \<noteq> []"
  shows "ring_edges ring =
         map (\<lambda>k. (ring ! k, if k = 0 then last ring else ring ! (k - 1))) [0..<length ring]"
proof (rule nth_equalityI)
  show "length (ring_edges ring) =
        length (map (\<lambda>k. (ring ! k, if k = 0 then last ring else ring ! (k - 1))) [0..<length ring])"
    using assms by (simp add: ring_edges_def)
next
  fix k assume "k < length (ring_edges ring)"
  then have k: "k < length ring" using assms by (simp add: ring_edges_def)
  show "ring_edges ring ! k =
        map (\<lambda>k. (ring ! k, if k = 0 then last ring else ring ! (k - 1))) [0..<length ring] ! k"
    using k assms by (cases k) (simp_all add: ring_edges_def nth_butlast)
qed

lemma pointInRing_parity: "pointInRing p ring = odd (crossings p ring)"
proof (cases ring)
  case Nil
  then show ?thesis
    by (simp add: pointInRing_def crossings_def ring_edges_def pointInRing_loop.simps)
next
  case (Cons v vs)
  then have ne: "ring \<noteq> []" by simp
  let ?c = "\<lambda>k. crossing p (ring ! k) (ring ! (k - 1))"
  have first: "pointInRing p ring =
      pointInRing_loop p ring (Suc 0) 0 (crossing p (ring ! 0) (last ring))"
    using ne unfolding pointInRing_def
    by (subst pointInRing_loop.simps) (simp add: last_conv_nth)
  have "pointInRing p ring =
      (crossing p (ring ! 0) (last ring) \<noteq> odd (length (filter ?c [Suc 0..<length ring])))"
    unfolding first by (rule pointInRing_loop_from) simp_all
  moreover have "crossings p ring =
      (if crossing p (ring ! 0) (last ring) then 1 else 0) + length (filter ?c [Suc 0..<length ring])"
  proof -
    have "filter (\<lambda>(vi, vj). crossing p vi vj) (ring_edges ring) =
          map (\<lambda>k. (ring ! k, if k = 0 then last ring else ring ! (k - 1)))
            (filter (\<lambda>k. crossing p (ring ! k) (if k = 0 then last ring else ring ! (k - 1)))
               [0..<length ring])"
      by (simp add: ring_edges_nth[OF ne] filter_map o_def)
    moreover have "[0..<length ring] = 0 # [Suc 0..<length ring]"
      using ne by (simp add: upt_conv_Cons)
    moreover have
      "filter (\<lambda>k. crossing p (ring ! k) (if k = 0 then last ring else ring ! (k - 1)))
         [Suc 0..<length ring] = filter ?c [Suc 0..<length ring]"
      by (rule filter_cong) auto
    ultimately show ?thesis by (simp add: crossings_def)
  qed
  ultimately show ?thesis by auto
qed

lemma ring_edges_rotate1: "ring_edges (rotate1 ring) = rotate1 (ring_edges ring)"
proof (cases ring)
  case Nil
  then show ?thesis by (simp add: ring_edges_def)
next
  case (Cons v vs)
  show ?thesis
  proof (cases "vs = []")
    case True
    with Cons show ?thesis by (simp add: ring_edges_def)
  next
    case False
    have len: "length vs = length (v # butlast vs)" using False by simp
    have "ring_edges (rotate1 ring) = zip (vs @ [v]) ((v # butlast vs) @ [last vs])"
      using Cons False by (simp add: ring_edges_def)
    also have "\<dots> = zip vs (v # butlast vs) @ [(v, last vs)]"
      using len by (subst zip_append) simp_all
    also have "\<dots> = rotate1 (ring_edges ring)"
      using Cons False by (simp add: ring_edges_def)
    finally show ?thesis .
  qed
qed

lemma crossings_rotate1: "crossings p (rotate1 ring) = crossings p ring"
proof -
  have "length (filter P (rotate1 es)) = length (filter P es)"
    for P and es :: "(position \<times> position) list"
    by (cases es) simp_all
  then show ?thesis by (simp add: crossings_def ring_edges_rotate1)
qed

lemma crossings_rotate: "crossings p (rotate k ring) = crossings p ring"
  by (induction k) (simp_all add: crossings_rotate1)

text \<open>
  Claim C6: for every ring, every cyclic rotation of its vertex list and every point, the
  ring test gives the same result on the ring and on the rotated ring. The loop visits
  each vertex with its cyclic predecessor, and a rotation only changes the order of these
  edges.
\<close>

theorem pointInRing_rotation_invariant:
  "pointInRing p (rotate k ring) = pointInRing p ring"
  by (simp add: pointInRing_parity crossings_rotate)

lemma example_square_centre: "pointInRing (Fin 5, Fin 5) example_square"
  by (simp add: example_square_def pointInRing_def pointInRing_loop.simps crossing_def
        js_lt_def js_sub_def round_double_eval)

theorem pointInRing_rotation_invariant_witness:
  "pointInRing (Fin 5, Fin 5) [[Fin 0, Fin 10], [Fin 10, Fin 10], [Fin 10, Fin 0], [Fin 0, Fin 0]]"
  using pointInRing_rotation_invariant [of "(Fin 5, Fin 5)" 1 example_square]
    example_square_centre
  by (simp add: example_square_def)

text \<open>
  The division of the crossing test is evaluated only when exactly one of \<open>yi\<close>, \<open>yj\<close>
  is above \<open>y\<close>; its divisor \<open>yj - yi\<close> is then never zero, the difference of two
  distinct doubles being at least the least positive double.
\<close>

lemma crossing_divisor_nonzero:
  assumes "representable yi" and "representable yj" and "js_gt yi y \<noteq> js_gt yj y"
  shows "js_sub yj yi \<noteq> Fin 0"
proof (cases yi)
  case (Fin a)
  show ?thesis
  proof (cases yj)
    case yj: (Fin b)
    from assms Fin yj have "a \<noteq> b" by auto
    moreover have "is_double a" "is_double b" using assms Fin yj by simp_all
    ultimately have "round_double (b - a) \<noteq> Fin 0" by (intro double_diff_nonzero) auto
    then show ?thesis using Fin yj by (simp add: js_sub_def)
  qed (use Fin in \<open>simp_all add: js_sub_def\<close>)
qed (cases yj; simp add: js_sub_def)+

section \<open>Degenerate rings\<close>

lemma pointInRing_short: "length ring < 2 \<Longrightarrow> \<not> pointInRing p ring"
proof (cases ring)
  case Nil
  then show ?thesis by (simp add: pointInRing_def pointInRing_loop.simps)
next
  case (Cons a rest)
  assume "length ring < 2"
  with Cons have "ring = [a]" by (cases rest) simp_all
  then show ?thesis
    by (cases p) (simp add: pointInRing_def pointInRing_loop.simps crossing_def split: prod.splits)
qed

lemma pointInRing_two: "pointInRing p [a, b] = (crossing p a b \<noteq> crossing p b a)"
  by (auto simp add: pointInRing_def pointInRing_loop.simps)

lemma pointInRing_two_guard:
  assumes "pointInRing (x, y) [a, b]"
  shows "js_gt (snd (destructure a)) y \<noteq> js_gt (snd (destructure b)) y"
proof -
  from assms have "crossing (x, y) a b \<or> crossing (x, y) b a" by (auto simp add: pointInRing_two)
  then show ?thesis by (auto simp add: crossing_def split: prod.splits)
qed

text \<open>
  Claim C7, as stated: every ring with fewer than three vertices contains no point. It
  fails for the two-vertex ring from \<open>(0, 0)\<close> to \<open>(1, 3)\<close> and the point
  \<open>(0.3333333333333333, 1)\<close>, all of them finite doubles: the edge towards \<open>(0, 0)\<close>
  computes the abscissa \<open>1 * 1 / 3 + 0\<close>, which rounds to the point's own \<open>x\<close>, and the
  edge towards \<open>(1, 3)\<close> computes \<open>-1 * -2 / -3 + 1\<close>, which rounds to the next double
  above, so that one edge only is counted.
\<close>

theorem degenerate_ring_counterexample:
  "length [[Fin 0, Fin 0], [Fin 1, Fin 3]] < 3 \<and>
   is_double (6004799503160661 / 18014398509481984) \<and>
   pointInRing (Fin (6004799503160661 / 18014398509481984), Fin 1) [[Fin 0, Fin 0], [Fin 1, Fin 3]]"
  by (simp add: is_double_third pointInRing_two crossing_def js_lt_def js_sub_def
        round_double_eval)

text \<open>
  Claim C7, amended: every ring with no vertex or one vertex contains no point. A ring of
  two vertices is not rejected: it contains no point unless exactly one of its two
  vertices lies strictly above the point, and it can contain a point otherwise.
\<close>

theorem degenerate_ring:
  "(length ring < 2 \<longrightarrow> \<not> pointInRing p ring) \<and>
   (pointInRing (x, y) [a, b] \<longrightarrow>
      js_gt (snd (destructure a)) y \<noteq> js_gt (snd (destructure b)) y)"
  using pointInRing_short pointInRing_two_guard by blast

theorem degenerate_ring_witness:
  "length [[Fin 3, Fin 4]] < (2::nat) \<and> \<not> pointInRing (Fin 3, Fin 4) [[Fin 3, Fin 4]] \<and>
   pointInRing (Fin (6004799503160661 / 18014398509481984), Fin 1) [[Fin 0, Fin 0], [Fin 1, Fin 3]] \<and>
   js_gt (Fin 3) (Fin 1) \<and> \<not> js_gt (Fin 0) (Fin 1)"
  using degenerate_ring [of "[[Fin 3, Fin 4]]" "(Fin 3, Fin 4)"
      "Fin (6004799503160661 / 18014398509481984)" "Fin 1" "[Fin 0, Fin 0]" "[Fin 1, Fin 3]"]
  by (simp add: pointInRing_two crossing_def js_lt_def js_sub_def round_double_eval)

section \<open>Polygons and multipolygons\<close>

lemma holes_loop_all: "holes_loop p holes = list_all (\<lambda>hole. \<not> pointInRing p hole) holes"
  by (induction holes) simp_all

lemma isPointInPolygon_contains:
  "poly \<noteq> [] \<Longrightarrow> isPointInPolygon p poly = Inr (polygon_contains p poly)"
  by (cases poly) (simp_all add: holes_loop_all)

lemma some_polygon_exists:
  "\<forall>poly \<in> set polys. poly \<noteq> [] \<Longrightarrow>
   some_polygon p polys = Inr (\<exists>poly \<in> set polys. polygon_contains p poly)"
  by (induction polys) (auto simp add: isPointInPolygon_contains split: bool.splits)

lemma some_polygon_sound:
  "some_polygon p polys = Inr True \<Longrightarrow> \<exists>poly \<in> set polys. polygon_contains p poly"
proof (induction polys)
  case Nil
  then show ?case by simp
next
  case (Cons poly polys)
  show ?case
  proof (cases "poly = []")
    case True
    with Cons.prems show ?thesis by simp
  next
    case False
    then have "isPointInPolygon p poly = Inr (polygon_contains p poly)"
      by (rule isPointInPolygon_contains)
    with Cons.prems Cons.IH show ?thesis by (cases "polygon_contains p poly") auto
  qed
qed

text \<open>
  Claim C3: a Polygon geometry contains a point if and only if the point is inside the
  exterior (first) ring and inside none of the hole rings; a MultiPolygon geometry, each of
  whose polygons has its exterior ring, contains a point if and only if one of its polygons
  does under that rule; a MultiPolygon with no polygon contains no point. Whatever its
  polygons are, a MultiPolygon contains a point only if one of its polygons does.
\<close>

theorem geometry_containment:
  "isPointInGeometry p (Some (Polygon (Some rings))) = polygon_contains p rings
   \<and> ((\<forall>poly \<in> set polys. poly \<noteq> []) \<longrightarrow>
        isPointInGeometry p (Some (MultiPolygon (Some polys))) =
          (\<exists>poly \<in> set polys. polygon_contains p poly))
   \<and> \<not> isPointInGeometry p (Some (MultiPolygon (Some [])))
   \<and> (isPointInGeometry p (Some (MultiPolygon (Some polys))) \<longrightarrow>
        (\<exists>poly \<in> set polys. polygon_contains p poly))"
proof (intro conjI impI)
  show "isPointInGeometry p (Some (Polygon (Some rings))) = polygon_contains p rings"
    by (cases rings) (simp_all add: holes_loop_all)
next
  assume "isPointInGeometry p (Some (MultiPolygon (Some polys)))"
  then have "some_polygon p polys = Inr True" by (simp split: sum.splits)
  then show "\<exists>poly \<in> set polys. polygon_contains p poly" by (rule some_polygon_sound)
next
  assume "\<forall>poly \<in> set polys. poly \<noteq> []"
  then show "isPointInGeometry p (Some (MultiPolygon (Some polys))) =
          (\<exists>poly \<in> set polys. polygon_contains p poly)"
    by (simp add: some_polygon_exists)
next
  show "\<not> isPointInGeometry p (Some (MultiPolygon (Some [])))" by simp
qed

text \<open>
  A polygon without any ring is outside the rule above: the exception it raises leaves
  the search, and the \<open>catch\<close> answers \<open>false\<close> whatever the polygons after it hold.
\<close>

lemma ringless_polygon_ends_search:
  "\<not> isPointInGeometry p (Some (MultiPolygon (Some ([] # polys))))"
  by simp

lemma example_square_inside: "pointInRing (Fin 1, Fin 1) example_square"
  by (simp add: example_square_def pointInRing_def pointInRing_loop.simps crossing_def
        js_lt_def js_sub_def round_double_eval)

lemma example_hole_outside: "\<not> pointInRing (Fin 1, Fin 1) example_hole"
  by (simp add: example_hole_def pointInRing_def pointInRing_loop.simps crossing_def
        js_lt_def js_sub_def round_double_eval)

theorem geometry_containment_witness:
  "list_all (\<lambda>poly. poly \<noteq> []) [[example_square, example_hole]] \<and>
   isPointInGeometry (Fin 1, Fin 1) (Some (MultiPolygon (Some [[example_square, example_hole]]))) \<and>
   isPointInGeometry (Fin 1, Fin 1) (Some (Polygon (Some [example_square, example_hole])))"
  using geometry_containment [of "(Fin 1, Fin 1)" "[example_square, example_hole]"
      "[[example_square, example_hole]]"]
  by (simp add: example_square_inside example_hole_outside)

section \<open>The refresh\<close>

lemma filter_feed_fails: "(\<exists>e. filter_feed data = Inl e) = (NullItem \<in> set data)"
proof (induction data)
  case Nil
  then show ?case by simp
next
  case (Cons item rest)
  then show ?case by (cases item) (auto split: sum.splits)
qed

lemma filter_feed_result:
  "filter_feed data = Inr areas \<Longrightarrow> areas = filter admitted (feed_areas data)"
proof (induction data arbitrary: areas)
  case Nil
  then show ?case by simp
next
  case (Cons item rest)
  then show ?case by (cases item) (auto split: sum.splits if_splits)
qed

lemma load_failure:
  assumes f: "refresh_fails (fetched w)"
  shows "\<exists>e. loadCommunityAreas s w = (Inl e, s)"
proof (cases "fetched w")
  case Rejected
  then show ?thesis by (simp add: loadCommunityAreas_def)
next
  case (Response ok statusText body)
  show ?thesis
  proof (cases body)
    case (FeedArray data)
    show ?thesis
    proof (cases ok)
      case True
      with f Response FeedArray have "NullItem \<in> set data" by simp
      then obtain e where "filter_feed data = Inl e" using filter_feed_fails by blast
      then show ?thesis using Response FeedArray True by (simp add: loadCommunityAreas_def)
    next
      case False
      then show ?thesis using Response by (simp add: loadCommunityAreas_def)
    qed
  qed (use Response in \<open>simp_all add: loadCommunityAreas_def\<close>)
qed

lemma load_cases:
  "(\<exists>e. loadCommunityAreas s w = (Inl e, s)) \<or>
   (\<exists>ok st data. fetched w = Response ok st (FeedArray data) \<and>
      loadCommunityAreas s w =
        (Inr (), s\<lparr>communityAreasCache := filter admitted (feed_areas data),
                   lastCommunityLoadTime := now_loaded w\<rparr>))"
proof (cases "refresh_fails (fetched w)")
  case True
  then show ?thesis using load_failure by blast
next
  case False
  then obtain st data
    where f: "fetched w = Response True st (FeedArray data)" and n: "NullItem \<notin> set data"
    by (cases "fetched w" rule: refresh_fails.cases) auto
  from n obtain areas where a: "filter_feed data = Inr areas"
    using filter_feed_fails[of data] by (cases "filter_feed data") auto
  then have "areas = filter admitted (feed_areas data)" by (rule filter_feed_result)
  then have "loadCommunityAreas s w =
        (Inr (), s\<lparr>communityAreasCache := filter admitted (feed_areas data),
                   lastCommunityLoadTime := now_loaded w\<rparr>)"
    using f a by (simp add: loadCommunityAreas_def)
  then show ?thesis using f by blast
qed

lemma load_error_keeps_store:
  "fst (loadCommunityAreas s w) = Inl e \<Longrightarrow> snd (loadCommunityAreas s w) = s"
  using load_cases[of s w] by auto

text \<open>
  Claim C5: if the fetch-and-reparse step of the refresh fails, \<open>loadCommunityAreas\<close>
  signals an error and leaves the store as it was: the cached areas are neither cleared
  nor changed and the time of the last load is not advanced. Conversely every error the
  refresh signals leaves the store unchanged, and so does \<open>ensureCommunityAreasLoaded\<close>
  when the fetch fails.
\<close>

theorem failed_refresh_keeps_store:
  "(refresh_fails (fetched w) \<longrightarrow>
      (\<exists>e. loadCommunityAreas s w = (Inl e, s)) \<and>
      communityAreasCache (snd (loadCommunityAreas s w)) = communityAreasCache s \<and>
      lastCommunityLoadTime (snd (loadCommunityAreas s w)) = lastCommunityLoadTime s)
   \<and> (fst (loadCommunityAreas s w) = Inl e' \<longrightarrow> snd (loadCommunityAreas s w) = s)
   \<and> (refresh_fails (fetched w) \<longrightarrow> snd (ensureCommunityAreasLoaded s w) = s)"
proof (intro conjI impI)
  assume "refresh_fails (fetched w)"
  then obtain e where e: "loadCommunityAreas s w = (Inl e, s)" using load_failure by blast
  then show "snd (ensureCommunityAreasLoaded s w) = s"
    by (simp add: ensureCommunityAreasLoaded_def)
next
  assume "refresh_fails (fetched w)"
  then obtain e where e: "loadCommunityAreas s w = (Inl e, s)" using load_failure by blast
  then show "\<exists>e. loadCommunityAreas s w = (Inl e, s)" by blast
  from e show "communityAreasCache (snd (loadCommunityAreas s w)) = communityAreasCache s"
    by simp
  from e show "lastCommunityLoadTime (snd (loadCommunityAreas s w)) = lastCommunityLoadTime s"
    by simp
next
  assume "fst (loadCommunityAreas s w) = Inl e'"
  then show "snd (loadCommunityAreas s w) = s" by (rule load_error_keeps_store)
qed

theorem failed_refresh_keeps_store_witness:
  "refresh_fails (fetched failing_refresh) \<and>
   loadCommunityAreas example_store failing_refresh = (Inl FetchRejected, example_store) \<and>
   communityAreasCache (snd (loadCommunityAreas example_store failing_refresh)) = [example_area] \<and>
   lastCommunityLoadTime (snd (loadCommunityAreas example_store failing_refresh)) = 1000"
  using failed_refresh_keeps_store [of failing_refresh example_store]
  by (simp add: failing_refresh_def example_store_def loadCommunityAreas_def)

section \<open>The cache holds admitted areas only\<close>

lemma admitted_fields_present: "admitted area \<Longrightarrow> fields_present area"
  by (cases "area_numbe area"; cases "community area")
     (simp_all add: admitted_def fields_present_def)

lemma load_preserves:
  assumes "\<forall>area \<in> set (communityAreasCache s). fields_present area"
  shows "\<forall>area \<in> set (communityAreasCache (snd (loadCommunityAreas s w))). fields_present area"
  using load_cases[of s w] assms by (auto simp add: admitted_fields_present)

lemma ensure_preserves:
  assumes "\<forall>area \<in> set (communityAreasCache s). fields_present area"
  shows "\<forall>area \<in> set (communityAreasCache (snd (ensureCommunityAreasLoaded s w))).
           fields_present area"
  using load_preserves[OF assms] assms by (simp add: ensureCommunityAreasLoaded_def)

lemma classifier_state:
  "snd (getCommunityAreaForCoordinates s w lat lng) = snd (ensureCommunityAreasLoaded s w)"
  by (simp add: getCommunityAreaForCoordinates_def split: prod.splits sum.splits)

lemma classifier_state_dest:
  "getCommunityAreaForCoordinates s w lat lng = (r, s') \<Longrightarrow>
   s' = snd (ensureCommunityAreasLoaded s w)"
  using classifier_state[of s w lat lng] by simp

lemma info_state: "snd (getCommunityAreaInfo s w n) = snd (ensureCommunityAreasLoaded s w)"
  by (simp add: getCommunityAreaInfo_def split: prod.splits sum.splits)

lemma validate_state:
  "snd (validateParkLocation s w park) = snd (ensureCommunityAreasLoaded s w)"
  by (auto simp add: validateParkLocation_def split: prod.splits sum.splits
        dest: classifier_state_dest)

lemma correct_state:
  "snd (correctParkCommunityArea s w park) = snd (ensureCommunityAreasLoaded s w)"
  by (auto simp add: correctParkCommunityArea_def split: prod.splits sum.splits option.splits
        dest: classifier_state_dest)

lemma address_state:
  "snd (getCommunityAreaForAddress s w geocoded addr) = s \<or>
   snd (getCommunityAreaForAddress s w geocoded addr) = snd (ensureCommunityAreasLoaded s w)"
  by (auto simp add: getCommunityAreaForAddress_def split: prod.splits sum.splits option.splits
        dest: classifier_state_dest)

lemma after_call_preserves:
  assumes "\<forall>area \<in> set (communityAreasCache s). fields_present area"
  shows "\<forall>area \<in> set (communityAreasCache (after_call s c)). fields_present area"
proof (cases c)
  case (Pair w op)
  show ?thesis
  proof (cases op)
    case (ForAddress geocoded addr)
    then show ?thesis
      using address_state[of s w geocoded addr] ensure_preserves[OF assms, of w] assms Pair
      by auto
  qed (use Pair ensure_preserves[OF assms, of w] in
        \<open>simp_all add: classifier_state info_state validate_state correct_state\<close>)
qed

lemma foldl_after_call_preserves:
  "\<forall>area \<in> set (communityAreasCache s). fields_present area \<Longrightarrow>
   \<forall>area \<in> set (communityAreasCache (foldl after_call s calls)). fields_present area"
proof (induction calls arbitrary: s)
  case Nil
  then show ?case by simp
next
  case (Cons c calls)
  show ?case
    using Cons.IH[OF after_call_preserves[OF Cons.prems]] by simp
qed

lemma after_calls_present:
  "\<forall>area \<in> set (communityAreasCache (after_calls calls)). fields_present area"
  unfolding after_calls_def
  by (rule foldl_after_call_preserves) (simp add: new_GeospatialService_def)

lemma load_result:
  assumes "loadCommunityAreas s w = (Inr u, s')"
  shows "\<exists>ok st data. fetched w = Response ok st (FeedArray data) \<and>
           communityAreasCache s' = filter admitted (feed_areas data)"
  using load_cases[of s w] assms by auto

text \<open>
  Claim C9: after every successful refresh each cached area has its geometry, identifier
  and name present, and a feed object that lacks one of the three is not in the cache;
  the cache after a refresh is the feed's objects filtered by the admission test, in feed
  order. Field presence holds of the cache after any sequence of calls on a new service.
\<close>

theorem cache_fields_present:
  "(\<forall>area \<in> set (communityAreasCache (after_calls calls)). fields_present area)
   \<and> (loadCommunityAreas s w = (Inr (), s') \<longrightarrow>
        (\<forall>area \<in> set (communityAreasCache s'). fields_present area) \<and>
        (\<forall>ok st data area.
           fetched w = Response ok st (FeedArray data) \<and> AreaItem area \<in> set data \<and>
           \<not> fields_present area \<longrightarrow> area \<notin> set (communityAreasCache s')) \<and>
        (\<forall>ok st data. fetched w = Response ok st (FeedArray data) \<longrightarrow>
           communityAreasCache s' = filter admitted (feed_areas data)))"
proof (intro conjI impI)
  show "\<forall>area \<in> set (communityAreasCache (after_calls calls)). fields_present area"
    by (rule after_calls_present)
next
  assume l: "loadCommunityAreas s w = (Inr (), s')"
  from load_result[OF l] obtain ok st data
    where f: "fetched w = Response ok st (FeedArray data)"
      and c: "communityAreasCache s' = filter admitted (feed_areas data)"
    by blast
  from c show present: "\<forall>area \<in> set (communityAreasCache s'). fields_present area"
    by (simp add: admitted_fields_present)
  from present show "\<forall>ok st data area.
           fetched w = Response ok st (FeedArray data) \<and> AreaItem area \<in> set data \<and>
           \<not> fields_present area \<longrightarrow> area \<notin> set (communityAreasCache s')"
    by blast
  from f c show "\<forall>ok st data. fetched w = Response ok st (FeedArray data) \<longrightarrow>
           communityAreasCache s' = filter admitted (feed_areas data)"
    by simp
qed

lemma first_load_result:
  "loadCommunityAreas new_GeospatialService first_load = (Inr (), example_store)"
  by (simp add: loadCommunityAreas_def first_load_def new_GeospatialService_def
        example_store_def admitted_def example_area_def unnumbered_area_def)

lemma first_call_loads:
  "after_calls [(first_load, ForCoordinates (Fin 5) (Fin 5))] = example_store"
  by (simp add: after_calls_def classifier_state ensureCommunityAreasLoaded_def
        shouldRefreshCommunityCache_def first_load_result)
     (simp add: new_GeospatialService_def)

theorem cache_fields_present_witness:
  "after_calls [(first_load, ForCoordinates (Fin 5) (Fin 5))] = example_store \<and>
   loadCommunityAreas new_GeospatialService first_load = (Inr (), example_store) \<and>
   \<not> fields_present unnumbered_area \<and>
   unnumbered_area \<notin> set (communityAreasCache example_store) \<and>
   length (communityAreasCache example_store) = 1 \<and>
   list_all fields_present (communityAreasCache example_store)"
  using cache_fields_present [of "[(first_load, ForCoordinates (Fin 5) (Fin 5))]"
      new_GeospatialService first_load example_store]
    first_load_result first_call_loads
  by (simp add: first_load_def fields_present_def unnumbered_area_def example_store_def
        example_area_def)

section \<open>The classifier\<close>

lemma classifier_after_ensure:
  "ensureCommunityAreasLoaded s w = (Inr u, s') \<Longrightarrow>
   getCommunityAreaForCoordinates s w lat lng =
     (Inr (scan_areas (lng, lat) (communityAreasCache s')), s')"
  by (simp add: getCommunityAreaForCoordinates_def)

lemma classifier_ensure_error:
  "ensureCommunityAreasLoaded s w = (Inl e, s') \<Longrightarrow>
   getCommunityAreaForCoordinates s w lat lng = (Inl e, s')"
  by (simp add: getCommunityAreaForCoordinates_def)

lemma classifier_error_dest:
  "getCommunityAreaForCoordinates s w lat lng = (Inl e, s') \<Longrightarrow>
   ensureCommunityAreasLoaded s w = (Inl e, s')"
  by (auto simp add: getCommunityAreaForCoordinates_def split: prod.splits sum.splits)

lemma scan_areas_find:
  "scan_areas p areas =
     (case find (\<lambda>area. isPointInGeometry p (the_geom area)) areas of
        None \<Rightarrow> None
      | Some area \<Rightarrow> or_null (parseInt_field (area_numbe area)))"
  by (induction areas) simp_all

lemma scan_areas_truthy: "scan_areas p areas = Some a \<Longrightarrow> truthy_number a"
  by (induction areas) (auto simp add: or_null_def split: if_splits)

lemma parseInt_one: "parseInt ''1'' = Fin 1"
  by (simp add: parseInt_def strip_sign_def strip_prefix_def isWhiteSpace_def digit_value_def
        round_double_eval)

text \<open>
  The identifier the classifier reports is \<open>parseInt(area.area_numbe) || null\<close>: an
  identifier that parses to zero or does not parse is reported as \<open>null\<close>.
\<close>

lemma zero_identifier_is_null: "or_null (parseInt ''0'') = None"
  by (simp add: parseInt_def strip_sign_def strip_prefix_def isWhiteSpace_def digit_value_def
        or_null_def truthy_number_def round_double_eval)

lemma word_identifier_is_null: "or_null (parseInt ''n/a'') = None"
  by (simp add: parseInt_def strip_sign_def strip_prefix_def isWhiteSpace_def digit_value_def
        or_null_def truthy_number_def round_double_eval)

lemma example_no_refresh:
  "ensureCommunityAreasLoaded example_store no_refresh_due = (Inr (), example_store)"
  by (simp add: ensureCommunityAreasLoaded_def shouldRefreshCommunityCache_def
        example_store_def no_refresh_due_def CACHE_DURATION_def)

lemma example_scan_inside: "scan_areas (Fin 5, Fin 5) [example_area] = Some (Fin 1)"
  by (simp add: example_area_def example_square_centre parseInt_one or_null_def
        truthy_number_def)

lemma example_square_far: "\<not> pointInRing (Fin 5, Fin 1000) example_square"
  by (simp add: example_square_def pointInRing_def pointInRing_loop.simps crossing_def
        js_lt_def js_sub_def round_double_eval)

lemma example_scan_far: "scan_areas (Fin 5, Fin 1000) [example_area] = None"
  by (simp add: example_area_def example_square_far)

text \<open>A decimal numeral is parsed to the double nearest to the number it denotes.\<close>

lemma digit_not_white: "is_digit c \<Longrightarrow> \<not> isWhiteSpace c"
  by (auto simp add: is_digit_def isWhiteSpace_def)

lemma digit_value_digit: "is_digit c \<Longrightarrow> digit_value c = of_char c - 48"
  by (simp add: is_digit_def digit_value_def)

lemma digit_value_less: "is_digit c \<Longrightarrow> digit_value c < 10"
  by (auto simp add: is_digit_def digit_value_def)

lemma foldl_digits:
  "list_all is_digit ds \<Longrightarrow>
   foldl (\<lambda>acc c. acc * 10 + digit_value c) v ds = foldl (\<lambda>v c. 10 * v + (of_char c - 48)) v ds"
  by (induction ds arbitrary: v) (simp_all add: digit_value_digit mult.commute)

lemma parseInt_decimal:
  assumes "decimal_numeral ds"
  shows "parseInt ds = round_double (real (decimal_value ds))"
proof -
  from assms obtain c rest where ds: "ds = c # rest" and c: "is_digit c" and
    digits: "list_all is_digit ds"
    by (cases ds) (auto simp add: decimal_numeral_def)
  have white: "dropWhile isWhiteSpace ds = ds"
    using ds c by (simp add: digit_not_white)
  have sign: "strip_sign ds = (False, ds)"
    using ds c by (auto simp add: strip_sign_def is_digit_def)
  have prefix: "strip_prefix ds = (10, ds)"
  proof (cases rest)
    case Nil
    with ds show ?thesis by (simp add: strip_prefix_def)
  next
    case (Cons b rest')
    with digits ds have "is_digit b" by simp
    then have "b \<noteq> CHR ''x''" and "b \<noteq> CHR ''X''" by (auto simp add: is_digit_def)
    with ds Cons show ?thesis by (simp add: strip_prefix_def)
  qed
  have run: "takeWhile (\<lambda>c. digit_value c < 10) ds = ds"
    using digits by (auto simp add: takeWhile_eq_all_conv list_all_iff digit_value_less)
  have ne: "ds \<noteq> []" using ds by simp
  show ?thesis
    by (simp add: parseInt_def white sign prefix run decimal_value_def
        foldl_digits[OF digits] ne)
qed

lemma parseInt_decimal_exact:
  assumes "decimal_numeral ds" and "0 < decimal_value ds" and "decimal_value ds < 2 ^ 53"
  shows "or_null (parseInt ds) = Some (Fin (real (decimal_value ds)))"
  using assms
  by (simp add: parseInt_decimal round_double_nat or_null_def truthy_number_def)

lemma decimal_77: "decimal_numeral ''77'' \<and> decimal_value ''77'' = 77"
  by (simp add: decimal_numeral_def is_digit_def decimal_value_def)

lemma second_area_first:
  "find (\<lambda>area. isPointInGeometry (Fin 5, Fin 5) (the_geom area))
     (communityAreasCache overlapping_store) = Some second_area"
  by (simp add: overlapping_store_def second_area_def example_square_centre)

lemma overlapping_no_refresh:
  "ensureCommunityAreasLoaded overlapping_store no_refresh_due = (Inr (), overlapping_store)"
  by (simp add: ensureCommunityAreasLoaded_def shouldRefreshCommunityCache_def
        overlapping_store_def no_refresh_due_def CACHE_DURATION_def)

lemma far_point_no_area:
  "find (\<lambda>area. isPointInGeometry (Fin 5, Fin 1000) (the_geom area))
     (communityAreasCache overlapping_store) = None"
  by (simp add: overlapping_store_def second_area_def example_area_def example_square_far)

lemma zero_store_no_refresh:
  "ensureCommunityAreasLoaded zero_store no_refresh_due = (Inr (), zero_store)"
  by (simp add: ensureCommunityAreasLoaded_def shouldRefreshCommunityCache_def
        zero_store_def no_refresh_due_def CACHE_DURATION_def)

lemma zero_scan: "scan_areas (Fin 5, Fin 5) [zero_area] = None"
  using zero_identifier_is_null by (simp add: zero_area_def example_square_centre)

lemma example_refresh_unavailable:
  "ensureCommunityAreasLoaded example_store unavailable_feed =
     (Inl (LoadFailed ''Failed to load community areas: Service Unavailable''), example_store)"
  by (simp add: ensureCommunityAreasLoaded_def shouldRefreshCommunityCache_def
        loadCommunityAreas_def unavailable_feed_def example_store_def CACHE_DURATION_def)

text \<open>
  Claim C1, as stated: whenever the store holds at least one area, the classifier returns
  the identifier of the first area whose geometry contains the point, or \<open>null\<close> when
  there is none, and not an error. It fails twice. A store that holds an area loaded more
  than an hour before refreshes first, and when the feed answers with a status that is not
  ok the call ends with that error. And an area numbered \<open>0\<close> that contains the point is
  reported as \<open>null\<close>, as if no area contained it.
\<close>

theorem nonempty_store_counterexample:
  "communityAreasCache example_store = [example_area] \<and>
   getCommunityAreaForCoordinates example_store unavailable_feed (Fin 5) (Fin 5) =
     (Inl (LoadFailed ''Failed to load community areas: Service Unavailable''), example_store) \<and>
   communityAreasCache zero_store = [zero_area] \<and>
   area_numbe zero_area = Some ''0'' \<and>
   isPointInGeometry (Fin 5, Fin 5) (the_geom zero_area) \<and>
   getCommunityAreaForCoordinates zero_store no_refresh_due (Fin 5) (Fin 5) =
     (Inr None, zero_store)"
  using classifier_ensure_error[OF example_refresh_unavailable, of "Fin 5" "Fin 5"]
    classifier_after_ensure[OF zero_store_no_refresh, of "Fin 5" "Fin 5"] zero_scan
  by (simp add: example_store_def zero_store_def zero_area_def example_square_centre)

text \<open>
  Claim C1, amended: when the freshness step of a call completes, which it does without a
  fetch whenever the store holds an area loaded at most an hour before, the classifier
  goes through the cached areas in stored order. If the first area whose geometry
  contains the point \<open>[lng, lat]\<close> has an identifier written in decimal digits, of a value
  that is not zero and below \<open>2\<^sup>5\<^sup>3\<close>, it returns that value; if no area's geometry contains
  the point it returns \<open>null\<close>, and not an error.
\<close>

theorem classifier_first_match:
  "(ensureCommunityAreasLoaded s w = (Inr (), s') \<longrightarrow>
      (find (\<lambda>area. isPointInGeometry (lng, lat) (the_geom area)) (communityAreasCache s') = None
         \<longrightarrow> getCommunityAreaForCoordinates s w lat lng = (Inr None, s')) \<and>
      (\<forall>area ds.
         find (\<lambda>area. isPointInGeometry (lng, lat) (the_geom area)) (communityAreasCache s') =
           Some area \<and>
         area_numbe area = Some ds \<and> decimal_numeral ds \<and>
         0 < decimal_value ds \<and> decimal_value ds < 2 ^ 53
         \<longrightarrow> getCommunityAreaForCoordinates s w lat lng =
               (Inr (Some (Fin (real (decimal_value ds)))), s')))
   \<and> (communityAreasCache s \<noteq> [] \<and> now_check w - lastCommunityLoadTime s \<le> CACHE_DURATION \<longrightarrow>
        ensureCommunityAreasLoaded s w = (Inr (), s))"
proof (intro conjI impI allI)
  assume "ensureCommunityAreasLoaded s w = (Inr (), s')"
  then have r: "getCommunityAreaForCoordinates s w lat lng =
      (Inr (scan_areas (lng, lat) (communityAreasCache s')), s')"
    by (rule classifier_after_ensure)
  {
    assume "find (\<lambda>area. isPointInGeometry (lng, lat) (the_geom area)) (communityAreasCache s') = None"
    then show "getCommunityAreaForCoordinates s w lat lng = (Inr None, s')"
      using r by (simp add: scan_areas_find)
  }
  {
    fix area ds
    assume a: "find (\<lambda>area. isPointInGeometry (lng, lat) (the_geom area)) (communityAreasCache s') =
           Some area \<and>
         area_numbe area = Some ds \<and> decimal_numeral ds \<and>
         0 < decimal_value ds \<and> decimal_value ds < 2 ^ 53"
    then have "or_null (parseInt ds) = Some (Fin (real (decimal_value ds)))"
      by (intro parseInt_decimal_exact) simp_all
    with a show "getCommunityAreaForCoordinates s w lat lng =
               (Inr (Some (Fin (real (decimal_value ds)))), s')"
      using r by (simp add: scan_areas_find)
  }
next
  assume "communityAreasCache s \<noteq> [] \<and> now_check w - lastCommunityLoadTime s \<le> CACHE_DURATION"
  then show "ensureCommunityAreasLoaded s w = (Inr (), s)"
    by (simp add: ensureCommunityAreasLoaded_def shouldRefreshCommunityCache_def)
qed

theorem classifier_first_match_witness:
  "communityAreasCache overlapping_store = [second_area, example_area] \<and>
   getCommunityAreaForCoordinates overlapping_store no_refresh_due (Fin 5) (Fin 5) =
     (Inr (Some (Fin 77)), overlapping_store) \<and>
   getCommunityAreaForCoordinates overlapping_store no_refresh_due (Fin 1000) (Fin 5) =
     (Inr None, overlapping_store)"
  using classifier_first_match [where s = overlapping_store and w = no_refresh_due
        and s' = overlapping_store and lat = "Fin 5" and lng = "Fin 5"]
    classifier_first_match [where s = overlapping_store and w = no_refresh_due
        and s' = overlapping_store and lat = "Fin 1000" and lng = "Fin 5"]
    overlapping_no_refresh second_area_first far_point_no_area decimal_77
  by (auto simp add: second_area_def overlapping_store_def)

section \<open>A failed refresh fails the lookup\<close>

lemma example_refresh_due:
  "shouldRefreshCommunityCache example_store (now_check failing_refresh)"
  by (simp add: shouldRefreshCommunityCache_def example_store_def failing_refresh_def
        CACHE_DURATION_def)

lemma example_refresh_rejected:
  "ensureCommunityAreasLoaded example_store failing_refresh = (Inl FetchRejected, example_store)"
  using example_refresh_due
  by (simp add: ensureCommunityAreasLoaded_def loadCommunityAreas_def failing_refresh_def)

text \<open>
  Claim C2, as stated: once an area has been loaded, a call whose refresh fails still
  completes from the cached areas. It fails: the store below was filled by a first call;
  a call made more than an hour later, whose fetch is rejected, ends with that error.
\<close>

theorem stale_lookup_counterexample:
  "after_calls [(first_load, ForCoordinates (Fin 5) (Fin 5))] = example_store \<and>
   communityAreasCache example_store = [example_area] \<and>
   getCommunityAreaForCoordinates example_store failing_refresh (Fin 5) (Fin 5) =
     (Inl FetchRejected, example_store)"
  using first_call_loads classifier_ensure_error[OF example_refresh_rejected]
  by (simp add: example_store_def)

text \<open>
  Claim C2, amended: a call whose refresh is due and fails does not complete: it ends with
  the very error \<open>loadCommunityAreas\<close> signals, and leaves the store (cached areas and
  load time) unchanged. A call completes from the cached areas, without a fetch, when no
  refresh is due, that is when the cache is not empty and was loaded at most 60 minutes
  before.
\<close>

theorem failed_refresh_fails_lookup:
  "(shouldRefreshCommunityCache s (now_check w) \<and> loadCommunityAreas s w = (Inl e, t) \<longrightarrow>
      getCommunityAreaForCoordinates s w lat lng = (Inl e, s) \<and> t = s)
   \<and> (shouldRefreshCommunityCache s (now_check w) \<and> refresh_fails (fetched w) \<longrightarrow>
        (\<exists>e. loadCommunityAreas s w = (Inl e, s) \<and>
             getCommunityAreaForCoordinates s w lat lng = (Inl e, s)))
   \<and> (\<not> shouldRefreshCommunityCache s (now_check w) \<longrightarrow>
        getCommunityAreaForCoordinates s w lat lng =
          (Inr (scan_areas (lng, lat) (communityAreasCache s)), s))
   \<and> (shouldRefreshCommunityCache s now =
        (now - lastCommunityLoadTime s > 3600000 \<or> communityAreasCache s = []))"
proof (intro conjI impI)
  assume a: "shouldRefreshCommunityCache s (now_check w) \<and> loadCommunityAreas s w = (Inl e, t)"
  then show t: "t = s" using load_error_keeps_store[of s w e] by simp
  from a have "ensureCommunityAreasLoaded s w = (Inl e, t)"
    by (simp add: ensureCommunityAreasLoaded_def)
  then show "getCommunityAreaForCoordinates s w lat lng = (Inl e, s)"
    using classifier_ensure_error t by blast
next
  assume a: "shouldRefreshCommunityCache s (now_check w) \<and> refresh_fails (fetched w)"
  then obtain e where l: "loadCommunityAreas s w = (Inl e, s)" using load_failure by blast
  with a have "ensureCommunityAreasLoaded s w = (Inl e, s)"
    by (simp add: ensureCommunityAreasLoaded_def)
  then have "getCommunityAreaForCoordinates s w lat lng = (Inl e, s)"
    by (rule classifier_ensure_error)
  with l show "\<exists>e. loadCommunityAreas s w = (Inl e, s) \<and>
             getCommunityAreaForCoordinates s w lat lng = (Inl e, s)"
    by blast
next
  assume "\<not> shouldRefreshCommunityCache s (now_check w)"
  then have "ensureCommunityAreasLoaded s w = (Inr (), s)"
    by (simp add: ensureCommunityAreasLoaded_def)
  then show "getCommunityAreaForCoordinates s w lat lng =
          (Inr (scan_areas (lng, lat) (communityAreasCache s)), s)"
    by (rule classifier_after_ensure)
next
  show "shouldRefreshCommunityCache s now =
        (now - lastCommunityLoadTime s > 3600000 \<or> communityAreasCache s = [])"
    by (simp add: shouldRefreshCommunityCache_def CACHE_DURATION_def)
qed

lemma example_load_rejected:
  "loadCommunityAreas example_store failing_refresh = (Inl FetchRejected, example_store)"
  by (simp add: loadCommunityAreas_def failing_refresh_def)

theorem failed_refresh_fails_lookup_witness:
  "shouldRefreshCommunityCache example_store (now_check failing_refresh) \<and>
   refresh_fails (fetched failing_refresh) \<and>
   loadCommunityAreas example_store failing_refresh = (Inl FetchRejected, example_store) \<and>
   getCommunityAreaForCoordinates example_store failing_refresh (Fin 5) (Fin 5) =
     (Inl FetchRejected, example_store) \<and>
   getCommunityAreaForCoordinates example_store no_refresh_due (Fin 5) (Fin 5) =
     (Inr (Some (Fin 1)), example_store)"
  using failed_refresh_fails_lookup [where s = example_store and w = failing_refresh
        and e = FetchRejected and t = example_store
        and lat = "Fin 5" and lng = "Fin 5" and now = 0]
    failed_refresh_fails_lookup [where s = example_store and w = no_refresh_due
        and e = FetchRejected and t = example_store
        and lat = "Fin 5" and lng = "Fin 5" and now = 0]
    example_refresh_due example_scan_inside example_load_rejected
  by (simp add: failing_refresh_def no_refresh_due_def example_store_def
        shouldRefreshCommunityCache_def CACHE_DURATION_def)

section \<open>The classifier does not validate its input\<close>

lemma js_gt_NaN_right: "\<not> js_gt v NaN"
  by (cases v) simp_all

lemma crossing_NaN: "isNaN x \<or> isNaN y \<Longrightarrow> \<not> crossing (x, y) vi vj"
  by (cases x; cases y) (auto simp add: crossing_def js_lt_def js_gt_NaN_right split: prod.splits)

lemma crossings_NaN: "isNaN x \<or> isNaN y \<Longrightarrow> crossings (x, y) ring = 0"
  by (simp add: crossings_def crossing_NaN split_def)

lemma pointInRing_NaN: "isNaN x \<or> isNaN y \<Longrightarrow> \<not> pointInRing (x, y) ring"
  by (simp add: pointInRing_parity crossings_NaN)

lemma isPointInPolygon_NaN:
  "isNaN x \<or> isNaN y \<Longrightarrow> isPointInPolygon (x, y) poly \<noteq> Inr True"
  by (cases poly) (simp_all add: pointInRing_NaN)

lemma some_polygon_NaN: "isNaN x \<or> isNaN y \<Longrightarrow> some_polygon (x, y) polys \<noteq> Inr True"
proof (induction polys)
  case Nil
  then show ?case by simp
next
  case (Cons poly polys)
  then show ?case
    using isPointInPolygon_NaN[of x y poly] by (auto split: sum.splits bool.splits)
qed

lemma isPointInGeometry_NaN: "isNaN x \<or> isNaN y \<Longrightarrow> \<not> isPointInGeometry (x, y) g"
proof -
  assume n: "isNaN x \<or> isNaN y"
  show ?thesis
  proof (cases "((x, y), g)" rule: isPointInGeometry.cases)
    case (4 p rings)
    then show ?thesis using isPointInPolygon_NaN[OF n, of rings] by (auto split: sum.splits)
  next
    case (5 p polys)
    then show ?thesis using some_polygon_NaN[OF n, of polys] by (auto split: sum.splits)
  qed auto
qed

lemma scan_areas_NaN: "isNaN x \<or> isNaN y \<Longrightarrow> scan_areas (x, y) areas = None"
  by (induction areas) (simp_all add: isPointInGeometry_NaN)

text \<open>
  Claim C4, as stated: a coordinate input that fails validation is refused with an
  InvalidCoordinate error instead of the none result. It fails: latitude 1000 is
  invalid, and the classifier answers \<open>null\<close>.
\<close>

theorem invalid_coordinate_counterexample:
  "\<not> isValidCoordinates (Fin 1000, Fin 5) \<and>
   getCommunityAreaForCoordinates example_store no_refresh_due (Fin 1000) (Fin 5) =
     (Inr None, example_store)"
  using classifier_after_ensure[OF example_no_refresh, of "Fin 1000" "Fin 5"] example_scan_far
  by (simp add: isValidCoordinates_def js_le_def js_ge_def js_eq_def example_store_def)

text \<open>
  Claim C4, amended: for a coordinate input that fails validation the classifier makes no
  check and signals no coordinate error. Once its freshness step has completed it
  returns the result of the search over the cached areas, which is \<open>null\<close> when a
  component is NaN; and every error it returns is the error of the freshness step.
\<close>

theorem classifier_does_not_validate:
  assumes "\<not> isValidCoordinates (lat, lng)"
  shows "(ensureCommunityAreasLoaded s w = (Inr (), s') \<longrightarrow>
            getCommunityAreaForCoordinates s w lat lng =
              (Inr (scan_areas (lng, lat) (communityAreasCache s')), s') \<and>
            (isNaN lat \<or> isNaN lng \<longrightarrow>
               getCommunityAreaForCoordinates s w lat lng = (Inr None, s')))
         \<and> (getCommunityAreaForCoordinates s w lat lng = (Inl e, s'') \<longrightarrow>
              ensureCommunityAreasLoaded s w = (Inl e, s''))"
proof (intro conjI impI)
  assume en: "ensureCommunityAreasLoaded s w = (Inr (), s')"
  then show r: "getCommunityAreaForCoordinates s w lat lng =
              (Inr (scan_areas (lng, lat) (communityAreasCache s')), s')"
    by (rule classifier_after_ensure)
  assume "isNaN lat \<or> isNaN lng"
  then have "scan_areas (lng, lat) (communityAreasCache s') = None"
    using scan_areas_NaN[of lng lat] by blast
  with r show "getCommunityAreaForCoordinates s w lat lng = (Inr None, s')" by simp
next
  assume "getCommunityAreaForCoordinates s w lat lng = (Inl e, s'')"
  then show "ensureCommunityAreasLoaded s w = (Inl e, s'')" by (rule classifier_error_dest)
qed

lemma NaN_invalid: "\<not> isValidCoordinates (NaN, Fin 5)"
  by (simp add: isValidCoordinates_def)

theorem classifier_does_not_validate_witness:
  "getCommunityAreaForCoordinates example_store no_refresh_due NaN (Fin 5) =
     (Inr None, example_store)"
  using classifier_does_not_validate [OF NaN_invalid, of example_store no_refresh_due
      example_store FetchRejected example_store] example_no_refresh
  by auto

section \<open>Correcting a park\<close>

text \<open>
  Claim C10: \<open>correctParkCommunityArea\<close> changes at most the \<open>communityArea\<close> field: the
  park it returns agrees with the given park on every other field, and it is the given
  park itself when the classifier returned \<open>null\<close> or the park's own \<open>communityArea\<close>.
\<close>

theorem correctPark_frame:
  assumes "correctParkCommunityArea s w park = (Inr park', s')"
  shows "park' = park\<lparr>communityArea := communityArea park'\<rparr> \<and>
         id_park park' = id_park park \<and> name park' = name park \<and>
         address park' = address park \<and> coordinates park' = coordinates park \<and>
         amenities park' = amenities park \<and> description park' = description park \<and>
         size_park park' = size_park park \<and>
         (\<forall>actual.
            getCommunityAreaForCoordinates s w (fst (coordinates park)) (snd (coordinates park)) =
              (Inr actual, s') \<and>
            (actual = None \<or> actual = Some (communityArea park)) \<longrightarrow> park' = park)"
proof -
  obtain lat lng where c: "coordinates park = (lat, lng)" by (cases "coordinates park")
  obtain r s1 where g: "getCommunityAreaForCoordinates s w lat lng = (r, s1)"
    by (cases "getCommunityAreaForCoordinates s w lat lng")
  show ?thesis
  proof (cases r)
    case (Inl e)
    with assms c g show ?thesis by (simp add: correctParkCommunityArea_def)
  next
    case (Inr actual)
    show ?thesis
    proof (cases actual)
      case None
      with assms c g Inr show ?thesis by (auto simp add: correctParkCommunityArea_def)
    next
      case (Some a)
      have "scan_areas (lng, lat) (communityAreasCache s1) = Some a"
        using g Inr Some
        by (auto simp add: getCommunityAreaForCoordinates_def split: prod.splits sum.splits)
      then have "truthy_number a" by (rule scan_areas_truthy)
      then have "js_eq a a" by (simp add: truthy_number_def js_eq_def)
      with assms c g Inr Some show ?thesis
        by (auto simp add: correctParkCommunityArea_def split: if_splits)
    qed
  qed
qed

lemma example_correction:
  "correctParkCommunityArea example_store no_refresh_due example_park =
     (Inr (example_park\<lparr>communityArea := Fin 1\<rparr>), example_store)"
  using classifier_after_ensure[OF example_no_refresh, of "Fin 5" "Fin 5"] example_scan_inside
  by (simp add: correctParkCommunityArea_def example_park_def example_store_def
        truthy_number_def js_eq_def)

theorem correctPark_frame_witness:
  "correctParkCommunityArea example_store no_refresh_due example_park =
     (Inr (example_park\<lparr>communityArea := Fin 1\<rparr>), example_store) \<and>
   name (example_park\<lparr>communityArea := Fin 1\<rparr>) = ''Example Park'' \<and>
   coordinates (example_park\<lparr>communityArea := Fin 1\<rparr>) = (Fin 5, Fin 5)"
  using correctPark_frame [OF example_correction] example_correction
  by (simp add: example_park_def)

section \<open>The coordinate validator\<close>






end
